theory Spec2Isabelle
  imports Complex_Main "HOL-Library.AList"
begin

section \<open>Client-side prediction, reconciliation and remote interpolation\<close>

text \<open>
  A shallow embedding of the netcode core of \<^verbatim>\<open>client/src/components/Player.tsx\<close> and of
  the RTT bookkeeping of \<^verbatim>\<open>client/src/App.tsx\<close>.

  JavaScript numbers are modelled as \<^typ>\<open>real\<close>: comparisons, sums and products are the
  exact ones, without the rounding of IEEE doubles. Sequence numbers are \<^typ>\<open>int\<close>.
  The mutable refs of the React component (\<^verbatim>\<open>useRef\<close>) are fields of a record that each
  operation takes and returns.
\<close>

subsection \<open>The vector operations used by the source\<close>

text \<open>
  \<^verbatim>\<open>THREE.Vector3\<close> is a library class; the operations below are the ones the source
  calls, with the arithmetic of the library's implementation. The components are named
  \<open>vx\<close>, \<open>vy\<close>, \<open>vz\<close> for the source's \<^verbatim>\<open>x\<close>, \<^verbatim>\<open>y\<close>, \<^verbatim>\<open>z\<close>.
\<close>

datatype Vector3 = Vector3 (vx: real) (vy: real) (vz: real)

definition add_v3 :: "Vector3 \<Rightarrow> Vector3 \<Rightarrow> Vector3" where
  "add_v3 a b = Vector3 (vx a + vx b) (vy a + vy b) (vz a + vz b)"

definition sub_v3 :: "Vector3 \<Rightarrow> Vector3 \<Rightarrow> Vector3" where
  "sub_v3 a b = Vector3 (vx a - vx b) (vy a - vy b) (vz a - vz b)"

definition multiplyScalar :: "Vector3 \<Rightarrow> real \<Rightarrow> Vector3" where
  "multiplyScalar a s = Vector3 (vx a * s) (vy a * s) (vz a * s)"

definition lengthSq :: "Vector3 \<Rightarrow> real" where
  "lengthSq a = vx a * vx a + vy a * vy a + vz a * vz a"

definition length_v3 :: "Vector3 \<Rightarrow> real" where
  "length_v3 a = sqrt (lengthSq a)"

definition divideScalar :: "Vector3 \<Rightarrow> real \<Rightarrow> Vector3" where
  "divideScalar a s = multiplyScalar a (1 / s)"

definition normalize :: "Vector3 \<Rightarrow> Vector3" where
  \<comment> \<open>\<^verbatim>\<open>this.divideScalar(this.length() || 1)\<close>\<close>
  "normalize a = divideScalar a (if length_v3 a = 0 then 1 else length_v3 a)"

definition distanceToSquared :: "Vector3 \<Rightarrow> Vector3 \<Rightarrow> real" where
  "distanceToSquared a b =
     (let dx = vx a - vx b; dy = vy a - vy b; dz = vz a - vz b
      in dx * dx + dy * dy + dz * dz)"

definition distanceTo :: "Vector3 \<Rightarrow> Vector3 \<Rightarrow> real" where
  "distanceTo a b = sqrt (distanceToSquared a b)"

definition lerp :: "Vector3 \<Rightarrow> Vector3 \<Rightarrow> real \<Rightarrow> Vector3" where
  \<comment> \<open>\<^verbatim>\<open>this.x += (v.x - this.x) * alpha\<close>, and so on\<close>
  "lerp a v alpha =
     Vector3 (vx a + (vx v - vx a) * alpha)
             (vy a + (vy v - vy a) * alpha)
             (vz a + (vz v - vz a) * alpha)"


record Quaternion =
  qx :: real
  qy :: real
  qz :: real
  qw :: real

definition setFromAxisAngle :: "Vector3 \<Rightarrow> real \<Rightarrow> Quaternion" where
  "setFromAxisAngle axis angle =
     (let halfAngle = angle / 2; s = sin halfAngle
      in \<lparr>qx = vx axis * s, qy = vy axis * s, qz = vz axis * s, qw = cos halfAngle\<rparr>)"

definition applyQuaternion :: "Vector3 \<Rightarrow> Quaternion \<Rightarrow> Vector3" where
  "applyQuaternion v q =
     (let tx = 2 * (qy q * vz v - qz q * vy v);
          ty = 2 * (qz q * vx v - qx q * vz v);
          tz = 2 * (qx q * vy v - qy q * vx v)
      in Vector3 (vx v + qw q * tx + qy q * tz - qz q * ty)
                 (vy v + qw q * ty + qz q * tx - qx q * tz)
                 (vz v + qw q * tz + qx q * ty - qy q * tx))"

definition applyAxisAngle :: "Vector3 \<Rightarrow> Vector3 \<Rightarrow> real \<Rightarrow> Vector3" where
  "applyAxisAngle v axis angle = applyQuaternion v (setFromAxisAngle axis angle)"

subsection \<open>Constants\<close>

definition PLAYER_SPEED :: real where "PLAYER_SPEED = 7.5"
definition SPRINT_MULTIPLIER :: real where "SPRINT_MULTIPLIER = 1.8"
definition GRAVITY :: real where "GRAVITY = - 6.0"
definition JUMP_FORCE :: real where "JUMP_FORCE = 9.0"
definition POSITION_RECONCILE_THRESHOLD :: real where "POSITION_RECONCILE_THRESHOLD = 0.2"
definition FIXED_DELTA :: real where "FIXED_DELTA = 1 / 60"

subsection \<open>Input, snapshot and the refs of the player component\<close>

record InputState =
  forward :: bool
  backward :: bool
  left :: bool
  right :: bool
  sprint :: bool
  jump :: bool
  attack :: bool
  castSpell :: bool
  sequence :: int

text \<open>The fields of \<^verbatim>\<open>playerData\<close> that the frame loop reads.\<close>

record PlayerData =
  position :: Vector3
  rotation :: Vector3

text \<open>\<^verbatim>\<open>THREE.Euler\<close>: \<open>ey\<close> is the yaw (\<^verbatim>\<open>localRotationRef.current.y\<close>), \<open>ex\<close> the pitch.\<close>

record Euler =
  ex :: real
  ey :: real
  ez :: real

record LocalRefs =
  localPositionRef :: Vector3
  localRotationRef :: Euler
  verticalVelocity :: real
  prevJumpRef :: bool
  frameCounter :: nat
  lastLogTime :: real
  reconciliationCount :: nat
  totalReconciliationError :: real

subsection \<open>The local predictor: \<^verbatim>\<open>calculateClientMovement\<close>\<close>

definition hasInput :: "InputState \<Rightarrow> bool" where
  "hasInput inputState \<longleftrightarrow>
     forward inputState \<or> backward inputState \<or> left inputState \<or> right inputState"

definition forwardBasis :: "real \<Rightarrow> Vector3" where
  "forwardBasis playerYaw = applyAxisAngle (Vector3 0 0 (- 1)) (Vector3 0 1 0) playerYaw"

definition rightBasis :: "real \<Rightarrow> Vector3" where
  "rightBasis playerYaw = applyAxisAngle (Vector3 1 0 0) (Vector3 0 1 0) playerYaw"

text \<open>Lines 201 to 218: the sum of the selected basis vectors, normalised when diagonal.\<close>

definition moveDirection :: "real \<Rightarrow> InputState \<Rightarrow> Vector3" where
  "moveDirection playerYaw inputState =
     (let w0 = Vector3 0 0 0;
          w1 = (if forward inputState then add_v3 w0 (forwardBasis playerYaw) else w0);
          w2 = (if backward inputState then sub_v3 w1 (forwardBasis playerYaw) else w1);
          w3 = (if left inputState then sub_v3 w2 (rightBasis playerYaw) else w2);
          w4 = (if right inputState then add_v3 w3 (rightBasis playerYaw) else w3)
      in if lengthSq w4 > 1.1 then normalize w4 else w4)"

definition moveSpeed :: "InputState \<Rightarrow> real" where
  "moveSpeed inputState =
     (if sprint inputState then PLAYER_SPEED * SPRINT_MULTIPLIER else PLAYER_SPEED)"

text \<open>Line 221: the planar displacement of one step.\<close>

definition worldMoveVector :: "real \<Rightarrow> InputState \<Rightarrow> real \<Rightarrow> Vector3" where
  "worldMoveVector playerYaw inputState delta =
     multiplyScalar (moveDirection playerYaw inputState) (moveSpeed inputState * delta)"

text \<open>Line 229: the condition under which the jump impulse is applied.\<close>

definition jumpImpulse :: "LocalRefs \<Rightarrow> Vector3 \<Rightarrow> InputState \<Rightarrow> bool" where
  "jumpImpulse refs currentPos inputState \<longleftrightarrow>
     jump inputState \<and> \<not> prevJumpRef refs \<and> vy currentPos \<le> 0.01"

text \<open>Lines 225 to 231: the vertical velocity after gravity and the jump impulse.\<close>

definition velocityAfterImpulse :: "LocalRefs \<Rightarrow> Vector3 \<Rightarrow> InputState \<Rightarrow> real \<Rightarrow> real" where
  "velocityAfterImpulse refs currentPos inputState delta =
     (if jumpImpulse refs currentPos inputState then JUMP_FORCE
      else verticalVelocity refs + GRAVITY * delta)"

text \<open>
  The function returns the new position and writes \<^verbatim>\<open>verticalVelocity\<close> and
  \<^verbatim>\<open>prevJumpRef\<close>; the model returns the position with the updated refs.
\<close>

definition calculateClientMovement ::
  "LocalRefs \<Rightarrow> Vector3 \<Rightarrow> Euler \<Rightarrow> InputState \<Rightarrow> real \<Rightarrow> Vector3 \<times> LocalRefs" where
  "calculateClientMovement refs currentPos currentRot inputState delta =
     (if \<not> hasInput inputState \<and> \<not> jump inputState \<and> vy currentPos \<le> 0 then (currentPos, refs)
      else
        let move = worldMoveVector (ey currentRot) inputState delta;
            vel = velocityAfterImpulse refs currentPos inputState delta;
            refs1 = refs\<lparr>verticalVelocity := vel, prevJumpRef := jump inputState\<rparr>;
            p = add_v3 currentPos move;
            newPos = Vector3 (vx p) (vy p + vel * delta) (vz p)
        in if vy newPos < 0
           then (Vector3 (vx newPos) 0 (vz newPos), refs1\<lparr>verticalVelocity := 0\<rparr>)
           else (newPos, refs1))"

text \<open>
  Lines 968 to 974 of the frame loop: one prediction tick with the fixed delta, the result
  copied into \<^verbatim>\<open>localPositionRef\<close>.
\<close>

definition predictTick :: "LocalRefs \<Rightarrow> InputState \<Rightarrow> LocalRefs" where
  "predictTick refs currentInput =
     (let (predictedPosition, refs1) =
            calculateClientMovement refs (localPositionRef refs) (localRotationRef refs)
              currentInput FIXED_DELTA
      in refs1\<lparr>localPositionRef := predictedPosition\<rparr>)"

subsection \<open>The animation label: \<^verbatim>\<open>determineLocalAnimation\<close>\<close>



subsection \<open>Reconciliation in the frame loop\<close>

text \<open>Lines 1004 to 1019, as a function of the predicted and the server position.\<close>

definition reconcilePosition :: "Vector3 \<Rightarrow> Vector3 \<Rightarrow> Vector3" where
  "reconcilePosition localPos serverPos =
     (let distError = distanceTo localPos serverPos
      in if distError > 1.0 then serverPos
         else if distError > POSITION_RECONCILE_THRESHOLD
           then lerp localPos serverPos (min 0.3 (0.15 + distError * 0.3))
           else lerp localPos serverPos 0.05)"

definition reconcile :: "LocalRefs \<Rightarrow> PlayerData \<Rightarrow> LocalRefs" where
  "reconcile refs playerData =
     refs\<lparr>localPositionRef := reconcilePosition (localPositionRef refs) (position playerData)\<rparr>"

text \<open>Lines 981 to 1002: the counters of the diagnostic log.\<close>

definition trackDiagnostics :: "LocalRefs \<Rightarrow> real \<Rightarrow> real \<Rightarrow> LocalRefs" where
  "trackDiagnostics refs distError now =
     (let r1 = refs\<lparr>frameCounter := frameCounter refs + 1\<rparr>;
          r2 = (if now - lastLogTime r1 > 1000
                then r1\<lparr>frameCounter := 0, lastLogTime := now,
                        reconciliationCount := 0, totalReconciliationError := 0\<rparr>
                else r1)
      in if distError > 0.01
         then r2\<lparr>reconciliationCount := reconciliationCount r2 + 1,
                 totalReconciliationError := totalReconciliationError r2 + distError\<rparr>
         else r2)"

text \<open>The local branch of \<^verbatim>\<open>useFrame\<close>: predict, count, reconcile.\<close>

definition useFrameLocal :: "LocalRefs \<Rightarrow> PlayerData \<Rightarrow> InputState \<Rightarrow> real \<Rightarrow> LocalRefs" where
  "useFrameLocal refs playerData currentInput now =
     (let r1 = predictTick refs currentInput;
          distError = distanceTo (localPositionRef r1) (position playerData);
          r2 = trackDiagnostics r1 distError now
      in reconcile r2 playerData)"

subsection \<open>Remote players: snapshot buffer and interpolation\<close>

record Snapshot =
  pos :: Vector3
  timestamp :: real

text \<open>Lines 1040 to 1051: \<^verbatim>\<open>push\<close>, then \<^verbatim>\<open>shift\<close> when more than ten are held.\<close>

definition bufferSnapshot :: "Snapshot list \<Rightarrow> Vector3 \<Rightarrow> real \<Rightarrow> Snapshot list" where
  "bufferSnapshot buf serverPosition now =
     (if length buf = 0 \<or> distanceTo serverPosition (pos (buf ! (length buf - 1))) > 0.001
      then (let b = buf @ [\<lparr>pos = serverPosition, timestamp = now\<rparr>]
            in if length b > 10 then tl b else b)
      else buf)"


text \<open>Lines 1058 to 1062: the scan for the first entry whose successor is after the render time.\<close>

function scanBuffer :: "Snapshot list \<Rightarrow> real \<Rightarrow> nat \<Rightarrow> nat" where
  "scanBuffer buf rt i =
     (if i < length buf - 1 \<and> timestamp (buf ! (i + 1)) \<le> rt
      then scanBuffer buf rt (i + 1) else i)"
  by pat_completeness auto
termination
  by (relation "measure (\<lambda>(buf, rt, i). length buf - i)") auto

declare scanBuffer.simps [simp del]











subsection \<open>The pending table of send timestamps (\<^verbatim>\<open>App.tsx\<close>)\<close>

text \<open>
  \<^verbatim>\<open>inputTimestampsRef\<close> is a JavaScript \<^verbatim>\<open>Map\<close>: an association list in insertion
  order, \<^verbatim>\<open>set\<close> is \<^const>\<open>AList.update\<close>, \<^verbatim>\<open>delete\<close> is \<^const>\<open>AList.delete\<close>,
  \<^verbatim>\<open>get\<close> is \<^const>\<open>map_of\<close> and \<^verbatim>\<open>size\<close> the length.
\<close>

record AppRefs =
  currentInputRef :: InputState
  lastSentInputState :: "InputState option"
  inputTimestampsRef :: "(int \<times> real) list"
  rttSamples :: "real list"

text \<open>
  \<^verbatim>\<open>sendInput\<close>, lines 298 to 359, without the reducer call: \<open>isConnected\<close> stands for
  the guard on the connection, \<open>now\<close> for \<^verbatim>\<open>performance.now()\<close>.
\<close>

definition sendInput :: "bool \<Rightarrow> AppRefs \<Rightarrow> InputState \<Rightarrow> real \<Rightarrow> AppRefs" where
  "sendInput isConnected refs safeInputState now =
     (if \<not> isConnected then refs
      else if (case lastSentInputState refs of
                 None \<Rightarrow> True
               | Some l \<Rightarrow> l \<noteq> safeInputState \<or> sequence safeInputState \<noteq> sequence l)
      then
        (let r1 = (if sequence safeInputState mod 60 = 0 then refs\<lparr>rttSamples := []\<rparr> else refs)
         in r1\<lparr>inputTimestampsRef :=
                  AList.update (sequence safeInputState) now (inputTimestampsRef r1),
                lastSentInputState := Some safeInputState\<rparr>)
      else refs)"

text \<open>The body of the 60 Hz timer, lines 509 to 514.\<close>

definition inputTick :: "bool \<Rightarrow> AppRefs \<Rightarrow> real \<Rightarrow> AppRefs" where
  "inputTick isConnected refs now =
     (if \<not> isConnected then refs
      else
        (let cur = currentInputRef refs;
             cur1 = cur\<lparr>sequence := sequence cur + 1\<rparr>
         in sendInput isConnected (refs\<lparr>currentInputRef := cur1\<rparr>) cur1 now))"

text \<open>
  The RTT part of \<^verbatim>\<open>player.onUpdate\<close>, lines 132 to 160. Both tests are JavaScript
  truthiness tests: a sequence of 0 and a send time of 0 count as absent.
\<close>

definition onUpdateRtt :: "AppRefs \<Rightarrow> int \<Rightarrow> real \<Rightarrow> AppRefs" where
  "onUpdateRtt refs lastInputSeq now =
     (if lastInputSeq \<noteq> 0 then
        (case map_of (inputTimestampsRef refs) lastInputSeq of
           None \<Rightarrow> refs
         | Some sentTime \<Rightarrow>
             if sentTime \<noteq> 0 then
               (let rtt = now - sentTime;
                    ts1 = AList.delete lastInputSeq (inputTimestampsRef refs);
                    ts2 = (if length ts1 > 100
                           then AList.delete (lastInputSeq - 100) ts1 else ts1)
                in refs\<lparr>rttSamples := rttSamples refs @ [rtt], inputTimestampsRef := ts2\<rparr>)
             else refs)
      else refs)"

definition initialInput :: InputState where
  "initialInput =
     \<lparr>forward = False, backward = False, left = False, right = False, sprint = False,
      jump = False, attack = False, castSpell = False, sequence = 0\<rparr>"

definition initialAppRefs :: AppRefs where
  "initialAppRefs =
     \<lparr>currentInputRef = initialInput, lastSentInputState = None,
      inputTimestampsRef = [], rttSamples = []\<rparr>"

text \<open>Timer ticks while connected, with no acknowledgment in between.\<close>

definition runTicks :: "AppRefs \<Rightarrow> real list \<Rightarrow> AppRefs" where
  "runTicks refs nows = foldl (inputTick True) refs nows"

subsection \<open>Concrete inputs used below\<close>

definition groundedRefs :: LocalRefs where
  "groundedRefs =
     \<lparr>localPositionRef = Vector3 0 0 0, localRotationRef = \<lparr>ex = 0, ey = 0, ez = 0\<rparr>,
      verticalVelocity = 0, prevJumpRef = False, frameCounter = 0, lastLogTime = 0,
      reconciliationCount = 0, totalReconciliationError = 0\<rparr>"

definition jumpOnly :: InputState where
  "jumpOnly = initialInput\<lparr>jump := True\<rparr>"



text \<open>A snapshot of the local player at a given position.\<close>

definition serverAt :: "Vector3 \<Rightarrow> PlayerData" where
  "serverAt p = \<lparr>position = p, rotation = Vector3 0 0 0\<rparr>"




definition lostAcks :: AppRefs where
  "lostAcks = runTicks initialAppRefs (map real [1..<103])"

section \<open>Facts about the vector operations\<close>

lemma distanceTo_on_x_axis: "distanceTo (Vector3 a 0 0) (Vector3 b 0 0) = \<bar>a - b\<bar>"
  by (simp add: distanceTo_def distanceToSquared_def Let_def)

lemma distanceTo_zero_iff: "distanceTo a b = 0 \<longleftrightarrow> a = b"
proof
  assume "distanceTo a b = 0"
  then have sum0: "((vx a - vx b) * (vx a - vx b) + (vy a - vy b) * (vy a - vy b))
      + (vz a - vz b) * (vz a - vz b) = 0"
    by (simp add: distanceTo_def distanceToSquared_def Let_def)
  have xy: "0 \<le> (vx a - vx b) * (vx a - vx b) + (vy a - vy b) * (vy a - vy b)"
    by simp
  have z0: "(vz a - vz b) * (vz a - vz b) = 0"
    and xy0: "(vx a - vx b) * (vx a - vx b) + (vy a - vy b) * (vy a - vy b) = 0"
    using sum0 xy add_nonneg_eq_0_iff [OF xy zero_le_square [of "vz a - vz b"]] by simp_all
  have "(vx a - vx b) * (vx a - vx b) = 0 \<and> (vy a - vy b) * (vy a - vy b) = 0"
    using xy0 add_nonneg_eq_0_iff [OF zero_le_square [of "vx a - vx b"]
        zero_le_square [of "vy a - vy b"]] by simp
  with z0 have "vx a = vx b \<and> vy a = vy b \<and> vz a = vz b" by simp
  then show "a = b" by (simp add: Vector3.expand)
next
  assume "a = b"
  then show "distanceTo a b = 0" by (simp add: distanceTo_def distanceToSquared_def)
qed

lemma lerp_same: "lerp p p alpha = p"
  by (simp add: lerp_def)

lemma lerp_reaches_target:
  assumes a: "alpha \<noteq> 1" and l: "lerp p s alpha = s"
  shows "p = s"
proof -
  have "vx (lerp p s alpha) = vx s" "vy (lerp p s alpha) = vy s" "vz (lerp p s alpha) = vz s"
    using l by simp_all
  then have "(vx s - vx p) * (alpha - 1) = 0" "(vy s - vy p) * (alpha - 1) = 0"
      "(vz s - vz p) * (alpha - 1) = 0"
    by (simp_all add: lerp_def algebra_simps)
  with a show "p = s" by (simp add: Vector3.expand)
qed

section \<open>The predictor\<close>






lemma predictTick_sel:
  "localRotationRef (predictTick s i) = localRotationRef s"
  "prevJumpRef (predictTick s i) =
     (if \<not> hasInput i \<and> \<not> jump i \<and> vy (localPositionRef s) \<le> 0
      then prevJumpRef s else jump i)"
  by (simp_all add: predictTick_def calculateClientMovement_def Let_def split: prod.splits)








text \<open>
  C10: when no movement flag and no jump flag is set and \<open>y \<le> 0\<close>, the step returns the
  input position and leaves the refs as they were: no gravity is integrated and the
  previous-jump flag keeps its value. So when that flag was true (the release falls on such a
  tick), it is still true afterwards and a jump pressed next applies no impulse.
\<close>

theorem idle_grounded_step_is_noop:
  assumes "\<not> forward i" "\<not> backward i" "\<not> left i" "\<not> right i" "\<not> jump i" "vy p \<le> 0"
  shows "calculateClientMovement refs p r i d = (p, refs)
     \<and> verticalVelocity (snd (calculateClientMovement refs p r i d)) = verticalVelocity refs
     \<and> prevJumpRef (snd (calculateClientMovement refs p r i d)) = prevJumpRef refs
     \<and> (prevJumpRef refs \<longrightarrow>
          \<not> jumpImpulse (snd (calculateClientMovement refs p r i d)) p' i')"
  using assms by (simp add: calculateClientMovement_def hasInput_def jumpImpulse_def)

theorem idle_grounded_step_is_noop_witness:
  "calculateClientMovement (groundedRefs\<lparr>prevJumpRef := True, verticalVelocity := 0\<rparr>)
      (Vector3 0 0 0) \<lparr>ex = 0, ey = 0, ez = 0\<rparr> initialInput FIXED_DELTA
     = (Vector3 0 0 0, groundedRefs\<lparr>prevJumpRef := True, verticalVelocity := 0\<rparr>)
   \<and> \<not> jumpImpulse
        (snd (calculateClientMovement (groundedRefs\<lparr>prevJumpRef := True, verticalVelocity := 0\<rparr>)
           (Vector3 0 0 0) \<lparr>ex = 0, ey = 0, ez = 0\<rparr> initialInput FIXED_DELTA))
        (Vector3 0 0 0) jumpOnly"
proof -
  have h: "\<not> forward initialInput" "\<not> backward initialInput" "\<not> left initialInput"
    "\<not> right initialInput" "\<not> jump initialInput" "vy (Vector3 0 0 0) \<le> 0"
    by (simp_all add: initialInput_def)
  have pj: "prevJumpRef (groundedRefs\<lparr>prevJumpRef := True, verticalVelocity := 0\<rparr>)"
    by simp
  show ?thesis
    using pj idle_grounded_step_is_noop [OF h,
        of "groundedRefs\<lparr>prevJumpRef := True, verticalVelocity := 0\<rparr>"
        "\<lparr>ex = 0, ey = 0, ez = 0\<rparr>" FIXED_DELTA "Vector3 0 0 0" jumpOnly]
    by blast
qed

text \<open>
  C4, as the claim states it, fails: two states with the same position, vertical velocity
  and rotation, given the same command, step to different positions and velocities when
  their previous-jump flags differ.
\<close>

theorem hidden_jump_state_counterexample:
  "localPositionRef (groundedRefs\<lparr>prevJumpRef := True\<rparr>) = localPositionRef groundedRefs
   \<and> verticalVelocity (groundedRefs\<lparr>prevJumpRef := True\<rparr>) = verticalVelocity groundedRefs
   \<and> localRotationRef (groundedRefs\<lparr>prevJumpRef := True\<rparr>) = localRotationRef groundedRefs
   \<and> localPositionRef (predictTick groundedRefs jumpOnly) = Vector3 0 0.15 0
   \<and> localPositionRef (predictTick (groundedRefs\<lparr>prevJumpRef := True\<rparr>) jumpOnly)
       = Vector3 0 0 0
   \<and> verticalVelocity (predictTick groundedRefs jumpOnly) = 9
   \<and> verticalVelocity (predictTick (groundedRefs\<lparr>prevJumpRef := True\<rparr>) jumpOnly) = 0"
  by (simp add: groundedRefs_def jumpOnly_def initialInput_def predictTick_def
      calculateClientMovement_def hasInput_def Let_def worldMoveVector_def moveDirection_def
      multiplyScalar_def add_v3_def lengthSq_def velocityAfterImpulse_def jumpImpulse_def
      JUMP_FORCE_def GRAVITY_def FIXED_DELTA_def)

lemma worldMoveVector_flags:
  assumes "forward i = forward j" "backward i = backward j" "left i = left j"
    "right i = right j" "sprint i = sprint j"
  shows "worldMoveVector yaw i d = worldMoveVector yaw j d"
  unfolding worldMoveVector_def moveDirection_def moveSpeed_def using assms by simp

lemma velocityAfterImpulse_inputs:
  assumes "verticalVelocity a = verticalVelocity b" "prevJumpRef a = prevJumpRef b"
    "jump i = jump j"
  shows "velocityAfterImpulse a p i d = velocityAfterImpulse b p j d"
  unfolding velocityAfterImpulse_def jumpImpulse_def using assms by simp

text \<open>
  C4, amended: the step with the fixed delta is a function of the position, the vertical
  velocity, the previous-jump flag, the yaw and the movement, sprint and jump flags of the
  command. Two states that agree on these step to the same position, vertical velocity,
  previous-jump flag and yaw, whatever the rest of the state and of the command.
\<close>

theorem predictor_inputs:
  assumes "localPositionRef a = localPositionRef b" "verticalVelocity a = verticalVelocity b"
    "prevJumpRef a = prevJumpRef b" "ey (localRotationRef a) = ey (localRotationRef b)"
    "forward i = forward j" "backward i = backward j" "left i = left j" "right i = right j"
    "sprint i = sprint j" "jump i = jump j"
  shows "localPositionRef (predictTick a i) = localPositionRef (predictTick b j)
    \<and> verticalVelocity (predictTick a i) = verticalVelocity (predictTick b j)
    \<and> prevJumpRef (predictTick a i) = prevJumpRef (predictTick b j)
    \<and> ey (localRotationRef (predictTick a i)) = ey (localRotationRef (predictTick b j))"
proof -
  have h: "hasInput i = hasInput j" using assms by (simp add: hasInput_def)
  have w: "worldMoveVector (ey (localRotationRef a)) i FIXED_DELTA
      = worldMoveVector (ey (localRotationRef b)) j FIXED_DELTA"
    using assms worldMoveVector_flags [of i j "ey (localRotationRef b)" FIXED_DELTA] by simp
  have v: "velocityAfterImpulse a (localPositionRef a) i FIXED_DELTA
      = velocityAfterImpulse b (localPositionRef b) j FIXED_DELTA"
    using assms velocityAfterImpulse_inputs [of a b i j "localPositionRef b" FIXED_DELTA]
    by simp
  show ?thesis
    unfolding predictTick_def calculateClientMovement_def
    using assms(1-4,10) h w v by (simp add: Let_def)
qed

theorem predictor_inputs_witness:
  "localPositionRef (predictTick groundedRefs jumpOnly)
     = localPositionRef
         (predictTick (groundedRefs\<lparr>localRotationRef := \<lparr>ex = 1, ey = 0, ez = 0\<rparr>,
               frameCounter := 5\<rparr>)
            (jumpOnly\<lparr>attack := True, sequence := 7\<rparr>))
   \<and> verticalVelocity (predictTick groundedRefs jumpOnly)
     = verticalVelocity
         (predictTick (groundedRefs\<lparr>localRotationRef := \<lparr>ex = 1, ey = 0, ez = 0\<rparr>,
               frameCounter := 5\<rparr>)
            (jumpOnly\<lparr>attack := True, sequence := 7\<rparr>))"
  using predictor_inputs [of groundedRefs
      "groundedRefs\<lparr>localRotationRef := \<lparr>ex = 1, ey = 0, ez = 0\<rparr>, frameCounter := 5\<rparr>"
      jumpOnly "jumpOnly\<lparr>attack := True, sequence := 7\<rparr>"]
  by (simp add: groundedRefs_def)

section \<open>Reconciliation\<close>

lemma reconcilePosition_snap:
  "(1 < distanceTo p s \<longrightarrow> reconcilePosition p s = s)
   \<and> (distanceTo p s = 1 \<longrightarrow>
        reconcilePosition p s = lerp p s 0.3 \<and> reconcilePosition p s \<noteq> s)
   \<and> (distanceTo p s = 0.999 \<longrightarrow> reconcilePosition p s \<noteq> s)"
proof (intro conjI impI)
  assume "1 < distanceTo p s"
  then show "reconcilePosition p s = s" by (simp add: reconcilePosition_def)
next
  assume d: "distanceTo p s = 1"
  then show "reconcilePosition p s = lerp p s 0.3"
    by (simp add: reconcilePosition_def POSITION_RECONCILE_THRESHOLD_def)
  have "p \<noteq> s" using d distanceTo_zero_iff [of p s] by auto
  then have "lerp p s 0.3 \<noteq> s" using lerp_reaches_target [of "0.3" p s] by auto
  then show "reconcilePosition p s \<noteq> s"
    using d by (simp add: reconcilePosition_def POSITION_RECONCILE_THRESHOLD_def)
next
  assume d: "distanceTo p s = 0.999"
  have "p \<noteq> s" using d distanceTo_zero_iff [of p s] by auto
  then have "lerp p s 0.3 \<noteq> s" using lerp_reaches_target [of "0.3" p s] by auto
  then show "reconcilePosition p s \<noteq> s"
    using d by (simp add: reconcilePosition_def POSITION_RECONCILE_THRESHOLD_def)
qed

lemma reconcilePosition_tiers:
  "(0.2 < distanceTo p s \<and> distanceTo p s \<le> 1 \<longrightarrow>
       reconcilePosition p s = lerp p s (min 0.3 (0.15 + distanceTo p s * 0.3)))
   \<and> (distanceTo p s \<le> 0.2 \<longrightarrow> reconcilePosition p s = lerp p s 0.05)
   \<and> (distanceTo p s = 0 \<longrightarrow> reconcilePosition p s = p)"
  by (auto simp add: reconcilePosition_def POSITION_RECONCILE_THRESHOLD_def Let_def
      distanceTo_zero_iff lerp_same)

text \<open>The predicted position that reconciliation and the whole frame leave in the refs.\<close>

lemma reconcile_position:
  "localPositionRef (reconcile refs playerData)
     = reconcilePosition (localPositionRef refs) (position playerData)"
  by (simp add: reconcile_def)

lemma useFrameLocal_position:
  "localPositionRef (useFrameLocal refs playerData i now)
     = reconcilePosition (localPositionRef (predictTick refs i)) (position playerData)"
  by (simp add: useFrameLocal_def reconcile_def trackDiagnostics_def Let_def)

lemma predictTick_idle_grounded: "predictTick groundedRefs initialInput = groundedRefs"
  by (simp add: predictTick_def calculateClientMovement_def hasInput_def initialInput_def
      groundedRefs_def)

lemma serverAt_position: "position (serverAt p) = p"
  by (simp add: serverAt_def)

text \<open>
  C2, as the claim states it, fails: with the predicted position at the origin and the
  server position at distance exactly 1.0, the test \<^verbatim>\<open>distError > 1.0\<close> is false and the
  position is blended, not replaced. After reconciliation, and after the whole frame, the
  predicted position is (0.3, 0, 0), not the server position (1, 0, 0).
\<close>

theorem snap_at_distance_one_counterexample:
  "localPositionRef groundedRefs = Vector3 0 0 0
   \<and> position (serverAt (Vector3 1 0 0)) = Vector3 1 0 0
   \<and> distanceTo (Vector3 0 0 0) (Vector3 1 0 0) = 1
   \<and> reconcilePosition (Vector3 0 0 0) (Vector3 1 0 0) \<noteq> Vector3 1 0 0
   \<and> localPositionRef (reconcile groundedRefs (serverAt (Vector3 1 0 0))) = Vector3 0.3 0 0
   \<and> localPositionRef (reconcile groundedRefs (serverAt (Vector3 1 0 0))) \<noteq> Vector3 1 0 0
   \<and> localPositionRef (useFrameLocal groundedRefs (serverAt (Vector3 1 0 0)) initialInput 0)
       = Vector3 0.3 0 0
   \<and> localPositionRef (useFrameLocal groundedRefs (serverAt (Vector3 1 0 0)) initialInput 0)
       \<noteq> Vector3 1 0 0"
proof -
  have g: "localPositionRef groundedRefs = Vector3 0 0 0" by (simp add: groundedRefs_def)
  have r: "reconcilePosition (Vector3 0 0 0) (Vector3 1 0 0) = Vector3 0.3 0 0"
    by (simp add: reconcilePosition_def distanceTo_on_x_axis POSITION_RECONCILE_THRESHOLD_def
        lerp_def)
  have d: "distanceTo (Vector3 0 0 0) (Vector3 1 0 0) = 1"
    by (simp add: distanceTo_on_x_axis)
  show ?thesis
    by (simp add: g r d reconcile_position useFrameLocal_position predictTick_idle_grounded
        serverAt_position)
qed

text \<open>
  C2, amended: reconciliation snaps when the distance is strictly greater than 1.0: the
  predicted position in the refs becomes the server position. At distance exactly 1.0 it
  blends with factor 0.3 and the predicted position does not become the server position; at
  distance 0.999 it does not snap either. The same holds for the whole frame, with the
  distance taken from the position the prediction tick computed.
\<close>

theorem snap_only_beyond_one:
  "(1 < distanceTo (localPositionRef refs) (position playerData) \<longrightarrow>
        localPositionRef (reconcile refs playerData) = position playerData)
   \<and> (distanceTo (localPositionRef refs) (position playerData) = 1 \<longrightarrow>
        localPositionRef (reconcile refs playerData)
          = lerp (localPositionRef refs) (position playerData) 0.3
        \<and> localPositionRef (reconcile refs playerData) \<noteq> position playerData)
   \<and> (distanceTo (localPositionRef refs) (position playerData) = 0.999 \<longrightarrow>
        localPositionRef (reconcile refs playerData) \<noteq> position playerData)
   \<and> (1 < distanceTo (localPositionRef (predictTick refs i)) (position playerData) \<longrightarrow>
        localPositionRef (useFrameLocal refs playerData i now) = position playerData)
   \<and> (distanceTo (localPositionRef (predictTick refs i)) (position playerData) = 1 \<longrightarrow>
        localPositionRef (useFrameLocal refs playerData i now)
          = lerp (localPositionRef (predictTick refs i)) (position playerData) 0.3
        \<and> localPositionRef (useFrameLocal refs playerData i now) \<noteq> position playerData)
   \<and> (distanceTo (localPositionRef (predictTick refs i)) (position playerData) = 0.999 \<longrightarrow>
        localPositionRef (useFrameLocal refs playerData i now) \<noteq> position playerData)"
  unfolding reconcile_position useFrameLocal_position
  using reconcilePosition_snap [of "localPositionRef refs" "position playerData"]
    reconcilePosition_snap [of "localPositionRef (predictTick refs i)" "position playerData"]
  by blast

theorem snap_only_beyond_one_witness:
  "localPositionRef (reconcile groundedRefs (serverAt (Vector3 2 0 0))) = Vector3 2 0 0
   \<and> localPositionRef (reconcile groundedRefs (serverAt (Vector3 1 0 0))) = Vector3 0.3 0 0
   \<and> localPositionRef (reconcile groundedRefs (serverAt (Vector3 0.999 0 0)))
       \<noteq> Vector3 0.999 0 0
   \<and> localPositionRef (useFrameLocal groundedRefs (serverAt (Vector3 2 0 0)) initialInput 0)
       = Vector3 2 0 0
   \<and> localPositionRef (useFrameLocal groundedRefs (serverAt (Vector3 1 0 0)) initialInput 0)
       = Vector3 0.3 0 0
   \<and> localPositionRef (useFrameLocal groundedRefs (serverAt (Vector3 0.999 0 0)) initialInput 0)
       \<noteq> Vector3 0.999 0 0"
proof -
  have g: "localPositionRef groundedRefs = Vector3 0 0 0" by (simp add: groundedRefs_def)
  have d: "distanceTo (Vector3 0 0 0) (Vector3 2 0 0) = 2"
    "distanceTo (Vector3 0 0 0) (Vector3 1 0 0) = 1"
    "distanceTo (Vector3 0 0 0) (Vector3 0.999 0 0) = 0.999"
    by (simp_all add: distanceTo_on_x_axis)
  have l: "lerp (Vector3 0 0 0) (Vector3 1 0 0) 0.3 = Vector3 0.3 0 0"
    by (simp add: lerp_def)
  have far: "localPositionRef (reconcile groundedRefs (serverAt (Vector3 2 0 0))) = Vector3 2 0 0
      \<and> localPositionRef (useFrameLocal groundedRefs (serverAt (Vector3 2 0 0)) initialInput 0)
          = Vector3 2 0 0"
    using snap_only_beyond_one [of groundedRefs "serverAt (Vector3 2 0 0)" initialInput 0]
    by (simp add: g d l predictTick_idle_grounded serverAt_position)
  have one: "localPositionRef (reconcile groundedRefs (serverAt (Vector3 1 0 0)))
        = Vector3 0.3 0 0
      \<and> localPositionRef (useFrameLocal groundedRefs (serverAt (Vector3 1 0 0)) initialInput 0)
          = Vector3 0.3 0 0"
    using snap_only_beyond_one [of groundedRefs "serverAt (Vector3 1 0 0)" initialInput 0]
    by (simp add: g d l predictTick_idle_grounded serverAt_position)
  have near: "localPositionRef (reconcile groundedRefs (serverAt (Vector3 0.999 0 0)))
        \<noteq> Vector3 0.999 0 0
      \<and> localPositionRef
           (useFrameLocal groundedRefs (serverAt (Vector3 0.999 0 0)) initialInput 0)
          \<noteq> Vector3 0.999 0 0"
    using d(3) snap_only_beyond_one [of groundedRefs "serverAt (Vector3 0.999 0 0)"
        initialInput 0, unfolded predictTick_idle_grounded serverAt_position g]
    by blast
  show ?thesis using far one near by blast
qed

text \<open>
  C3: with \<open>d\<close> the distance between the predicted and the server position, for
  \<open>0.2 < d \<le> 1.0\<close> the reconciler blends the predicted position in the refs towards the
  server position with factor \<open>min 0.3 (0.15 + d * 0.3)\<close>, for \<open>d \<le> 0.2\<close> with the fixed
  factor 0.05, and at \<open>d = 0\<close> the predicted position is unchanged. The same holds for the
  whole frame, with the distance taken from the position the prediction tick computed.
\<close>

theorem reconcile_tiers:
  "(0.2 < distanceTo (localPositionRef refs) (position playerData)
      \<and> distanceTo (localPositionRef refs) (position playerData) \<le> 1 \<longrightarrow>
       localPositionRef (reconcile refs playerData)
         = lerp (localPositionRef refs) (position playerData)
             (min 0.3 (0.15 + distanceTo (localPositionRef refs) (position playerData) * 0.3)))
   \<and> (distanceTo (localPositionRef refs) (position playerData) \<le> 0.2 \<longrightarrow>
       localPositionRef (reconcile refs playerData)
         = lerp (localPositionRef refs) (position playerData) 0.05)
   \<and> (distanceTo (localPositionRef refs) (position playerData) = 0 \<longrightarrow>
       localPositionRef (reconcile refs playerData) = localPositionRef refs)
   \<and> (0.2 < distanceTo (localPositionRef (predictTick refs i)) (position playerData)
      \<and> distanceTo (localPositionRef (predictTick refs i)) (position playerData) \<le> 1 \<longrightarrow>
       localPositionRef (useFrameLocal refs playerData i now)
         = lerp (localPositionRef (predictTick refs i)) (position playerData)
             (min 0.3 (0.15
                + distanceTo (localPositionRef (predictTick refs i)) (position playerData) * 0.3)))
   \<and> (distanceTo (localPositionRef (predictTick refs i)) (position playerData) \<le> 0.2 \<longrightarrow>
       localPositionRef (useFrameLocal refs playerData i now)
         = lerp (localPositionRef (predictTick refs i)) (position playerData) 0.05)
   \<and> (distanceTo (localPositionRef (predictTick refs i)) (position playerData) = 0 \<longrightarrow>
       localPositionRef (useFrameLocal refs playerData i now)
         = localPositionRef (predictTick refs i))"
  unfolding reconcile_position useFrameLocal_position
  using reconcilePosition_tiers [of "localPositionRef refs" "position playerData"]
    reconcilePosition_tiers [of "localPositionRef (predictTick refs i)" "position playerData"]
  by blast

theorem reconcile_tiers_witness:
  "localPositionRef (reconcile groundedRefs (serverAt (Vector3 0.5 0 0))) = Vector3 0.15 0 0
   \<and> localPositionRef (reconcile groundedRefs (serverAt (Vector3 0.1 0 0))) = Vector3 0.005 0 0
   \<and> localPositionRef (reconcile groundedRefs (serverAt (Vector3 0 0 0))) = Vector3 0 0 0
   \<and> localPositionRef (useFrameLocal groundedRefs (serverAt (Vector3 0.5 0 0)) initialInput 0)
       = Vector3 0.15 0 0
   \<and> localPositionRef (useFrameLocal groundedRefs (serverAt (Vector3 0.1 0 0)) initialInput 0)
       = Vector3 0.005 0 0
   \<and> localPositionRef (useFrameLocal groundedRefs (serverAt (Vector3 0 0 0)) initialInput 0)
       = Vector3 0 0 0"
proof -
  have g: "localPositionRef groundedRefs = Vector3 0 0 0" by (simp add: groundedRefs_def)
  have d1: "0.2 < distanceTo (Vector3 0 0 0) (Vector3 0.5 0 0)
      \<and> distanceTo (Vector3 0 0 0) (Vector3 0.5 0 0) \<le> 1"
    by (simp add: distanceTo_on_x_axis)
  have d2: "distanceTo (Vector3 0 0 0) (Vector3 0.1 0 0) \<le> 0.2"
    by (simp add: distanceTo_on_x_axis)
  have d3: "distanceTo (Vector3 0 0 0) (Vector3 0 0 0) = 0"
    by (simp add: distanceTo_on_x_axis)
  have l1: "lerp (Vector3 0 0 0) (Vector3 0.5 0 0)
      (min 0.3 (0.15 + distanceTo (Vector3 0 0 0) (Vector3 0.5 0 0) * 0.3)) = Vector3 0.15 0 0"
    by (simp add: lerp_def distanceTo_on_x_axis)
  have l2: "lerp (Vector3 0 0 0) (Vector3 0.1 0 0) 0.05 = Vector3 0.005 0 0"
    by (simp add: lerp_def)
  have aggressive:
    "localPositionRef (reconcile groundedRefs (serverAt (Vector3 0.5 0 0))) = Vector3 0.15 0 0
     \<and> localPositionRef (useFrameLocal groundedRefs (serverAt (Vector3 0.5 0 0)) initialInput 0)
         = Vector3 0.15 0 0"
    using d1 reconcile_tiers [of groundedRefs "serverAt (Vector3 0.5 0 0)" initialInput 0,
        unfolded predictTick_idle_grounded serverAt_position g]
    unfolding l1 [symmetric] by blast
  have gentle:
    "localPositionRef (reconcile groundedRefs (serverAt (Vector3 0.1 0 0))) = Vector3 0.005 0 0
     \<and> localPositionRef (useFrameLocal groundedRefs (serverAt (Vector3 0.1 0 0)) initialInput 0)
         = Vector3 0.005 0 0"
    using d2 reconcile_tiers [of groundedRefs "serverAt (Vector3 0.1 0 0)" initialInput 0,
        unfolded predictTick_idle_grounded serverAt_position g]
    unfolding l2 [symmetric] by blast
  have same:
    "localPositionRef (reconcile groundedRefs (serverAt (Vector3 0 0 0))) = Vector3 0 0 0
     \<and> localPositionRef (useFrameLocal groundedRefs (serverAt (Vector3 0 0 0)) initialInput 0)
         = Vector3 0 0 0"
    using d3 reconcile_tiers [of groundedRefs "serverAt (Vector3 0 0 0)" initialInput 0,
        unfolded predictTick_idle_grounded serverAt_position g]
    by blast
  show ?thesis using aggressive gentle same by blast
qed

section \<open>What reconciliation leaves alone\<close>

text \<open>
  C9: reconciliation writes the predicted position only; the vertical velocity, the
  previous-jump flag and the rotation (the yaw) keep their values, whatever the snapshot.
  In the whole frame the rotation is the one before the frame and the vertical velocity
  the one the prediction tick computed.
\<close>

theorem reconcile_changes_position_only:
  "verticalVelocity (reconcile refs playerData) = verticalVelocity refs
   \<and> ey (localRotationRef (reconcile refs playerData)) = ey (localRotationRef refs)
   \<and> localRotationRef (reconcile refs playerData) = localRotationRef refs
   \<and> prevJumpRef (reconcile refs playerData) = prevJumpRef refs
   \<and> reconcile refs playerData =
       refs\<lparr>localPositionRef := localPositionRef (reconcile refs playerData)\<rparr>
   \<and> localRotationRef (useFrameLocal refs playerData currentInput now) = localRotationRef refs
   \<and> verticalVelocity (useFrameLocal refs playerData currentInput now)
       = verticalVelocity (predictTick refs currentInput)"
  by (simp add: reconcile_def useFrameLocal_def trackDiagnostics_def Let_def predictTick_sel)

section \<open>Move direction and direction label\<close>






















section \<open>The snapshot buffer of a remote player\<close>












section \<open>Interpolation for a remote player\<close>

lemma scanBuffer_step:
  "i < length buf - 1 \<and> timestamp (buf ! (i + 1)) \<le> rt \<Longrightarrow>
     scanBuffer buf rt i = scanBuffer buf rt (i + 1)"
  by (subst scanBuffer.simps) auto

lemma scanBuffer_stop:
  "\<not> (i < length buf - 1 \<and> timestamp (buf ! (i + 1)) \<le> rt) \<Longrightarrow> scanBuffer buf rt i = i"
  by (subst scanBuffer.simps) auto

lemma scanBuffer_ge: "i \<le> scanBuffer buf rt i"
proof (induction buf rt i rule: scanBuffer.induct)
  case (1 buf rt i)
  show ?case
  proof (cases "i < length buf - 1 \<and> timestamp (buf ! (i + 1)) \<le> rt")
    case True
    then show ?thesis using 1 scanBuffer_step [OF True] by simp
  next
    case False
    then show ?thesis using scanBuffer_stop [OF False] by simp
  qed
qed







lemma bufferSnapshot_sorted:
  assumes "sorted (map timestamp buf)" "buf \<noteq> [] \<longrightarrow> timestamp (last buf) \<le> now"
  shows "sorted (map timestamp (bufferSnapshot buf p now))"
proof -
  have app: "sorted (map timestamp (buf @ [\<lparr>pos = p, timestamp = now\<rparr>]))"
  proof (cases "buf = []")
    case True
    then show ?thesis by simp
  next
    case False
    have "\<forall>x\<in>set (map timestamp buf). x \<le> now"
    proof
      fix x assume "x \<in> set (map timestamp buf)"
      then obtain k where k: "k < length buf" "x = timestamp (buf ! k)"
        by (auto simp add: in_set_conv_nth)
      have "timestamp (buf ! k) \<le> timestamp (buf ! (length buf - 1))"
        using sorted_nth_mono [OF assms(1), of k "length buf - 1"] k False by simp
      then show "x \<le> now" using assms(2) False k by (simp add: last_conv_nth)
    qed
    then show ?thesis using assms(1) by (simp add: sorted_append)
  qed
  have "sorted (tl (map timestamp (buf @ [\<lparr>pos = p, timestamp = now\<rparr>])))"
    using app by (rule sorted_tl)
  then show ?thesis using app assms(1) by (simp add: bufferSnapshot_def Let_def map_tl)
qed








section \<open>The pending table of send timestamps\<close>

lemma tick_sends:
  assumes "\<forall>l. lastSentInputState refs = Some l \<longrightarrow> sequence l \<le> sequence (currentInputRef refs)"
  shows "inputTimestampsRef (inputTick True refs now)
      = AList.update (sequence (currentInputRef refs) + 1) now (inputTimestampsRef refs)"
    and "sequence (currentInputRef (inputTick True refs now)) = sequence (currentInputRef refs) + 1"
    and "\<forall>l. lastSentInputState (inputTick True refs now) = Some l \<longrightarrow>
           sequence l \<le> sequence (currentInputRef (inputTick True refs now))"
  using assms
  by (auto simp add: inputTick_def sendInput_def Let_def split: option.splits)

lemma runTicks_keys:
  assumes "\<forall>l. lastSentInputState refs = Some l \<longrightarrow> sequence l \<le> sequence (currentInputRef refs)"
    and "\<forall>k\<in>set (map fst (inputTimestampsRef refs)). k \<le> sequence (currentInputRef refs)"
  shows "map fst (inputTimestampsRef (runTicks refs nows))
      = map fst (inputTimestampsRef refs)
        @ map (\<lambda>n. sequence (currentInputRef refs) + int n) [1..<Suc (length nows)]
    \<and> sequence (currentInputRef (runTicks refs nows))
        = sequence (currentInputRef refs) + int (length nows)"
  using assms
proof (induction nows arbitrary: refs)
  case Nil
  then show ?case by (simp add: runTicks_def)
next
  case (Cons now nows)
  let ?r = "inputTick True refs now"
  have t: "inputTimestampsRef ?r
      = AList.update (sequence (currentInputRef refs) + 1) now (inputTimestampsRef refs)"
    and q: "sequence (currentInputRef ?r) = sequence (currentInputRef refs) + 1"
    and l: "\<forall>l. lastSentInputState ?r = Some l \<longrightarrow> sequence l \<le> sequence (currentInputRef ?r)"
    using tick_sends [OF Cons.prems(1)] by simp_all
  have fresh: "sequence (currentInputRef refs) + 1 \<notin> set (map fst (inputTimestampsRef refs))"
    using Cons.prems(2) by auto
  have keys: "map fst (inputTimestampsRef ?r)
      = map fst (inputTimestampsRef refs) @ [sequence (currentInputRef refs) + 1]"
    using fresh by (simp add: t update_keys)
  have bound: "\<forall>k\<in>set (map fst (inputTimestampsRef ?r)). k \<le> sequence (currentInputRef ?r)"
    using Cons.prems(2) keys q by auto
  have ih: "map fst (inputTimestampsRef (runTicks ?r nows))
      = map fst (inputTimestampsRef ?r)
        @ map (\<lambda>n. sequence (currentInputRef ?r) + int n) [1..<Suc (length nows)]
    \<and> sequence (currentInputRef (runTicks ?r nows))
        = sequence (currentInputRef ?r) + int (length nows)"
    using Cons.IH [OF l bound] .
  have r: "runTicks refs (now # nows) = runTicks ?r nows" by (simp add: runTicks_def)
  have m: "map (\<lambda>n. sequence (currentInputRef refs) + int n) [1..<Suc (Suc (length nows))]
      = (sequence (currentInputRef refs) + 1)
        # map (\<lambda>n. sequence (currentInputRef refs) + 1 + int n) [1..<Suc (length nows)]"
  proof -
    have "[1..<Suc (Suc (length nows))] = 1 # map Suc [1..<Suc (length nows)]"
      by (simp add: upt_conv_Cons map_Suc_upt del: upt_Suc)
    then show ?thesis by (simp add: comp_def del: upt_Suc)
  qed
  show ?case using ih keys q m unfolding r by (simp del: upt_Suc)
qed

lemma no_eviction_without_ack:
  "map fst (inputTimestampsRef (runTicks initialAppRefs nows)) = map int [1..<Suc (length nows)]"
  using runTicks_keys [of initialAppRefs nows]
  by (simp add: initialAppRefs_def initialInput_def del: upt_Suc)


lemma delete_keeps_other_keys:
  "k \<in> set (map fst al) \<Longrightarrow> k \<noteq> d \<Longrightarrow> k \<in> set (map fst (AList.delete d al))"
  by (simp add: delete_keys)

lemma onUpdateRtt_keeps_other_keys:
  assumes "k \<in> set (map fst (inputTimestampsRef refs))" "k \<noteq> lastInputSeq"
    "k \<noteq> lastInputSeq - 100"
  shows "k \<in> set (map fst (inputTimestampsRef (onUpdateRtt refs lastInputSeq now)))"
proof -
  have d1: "k \<in> set (map fst (AList.delete lastInputSeq (inputTimestampsRef refs)))"
    using assms(1,2) by (rule delete_keeps_other_keys)
  have d2: "k \<in> set (map fst (AList.delete (lastInputSeq - 100)
      (AList.delete lastInputSeq (inputTimestampsRef refs))))"
    using d1 assms(3) by (rule delete_keeps_other_keys)
  show ?thesis
    using assms(1) d1 d2
    by (simp add: onUpdateRtt_def Let_def split: option.splits)
qed

text \<open>
  C8 says that the pending table never retains an entry more than 100 sequences old, with
  or without acknowledgments. The code does not do that: after 102 timer ticks while
  connected, none acknowledged, the table holds all 102 sequences, among them sequence 1,
  which is 101 sequences older than the newest; an acknowledgment of sequence 102 after
  that still leaves sequence 1 in the table.
\<close>

theorem pending_table_not_bounded:
  "map fst (inputTimestampsRef lostAcks) = map int [1..<103]
   \<and> length (inputTimestampsRef lostAcks) = 102
   \<and> 1 \<in> set (map fst (inputTimestampsRef lostAcks))
   \<and> 1 \<in> set (map fst (inputTimestampsRef (onUpdateRtt lostAcks 102 200)))"
proof -
  have k: "map fst (inputTimestampsRef lostAcks) = map int [1..<103]"
    using no_eviction_without_ack [of "map real [1..<103]"]
    by (simp add: lostAcks_def del: upt_Suc)
  have "length (map fst (inputTimestampsRef lostAcks)) = 102"
    unfolding k by simp
  then have l: "length (inputTimestampsRef lostAcks) = 102" by simp
  have "int 1 \<in> set (map int [1..<103])" by (simp del: upt_Suc)
  then have m: "1 \<in> set (map fst (inputTimestampsRef lostAcks))" unfolding k by simp
  have a: "1 \<in> set (map fst (inputTimestampsRef (onUpdateRtt lostAcks 102 200)))"
    using onUpdateRtt_keeps_other_keys [OF m, of 102 200] by simp
  show ?thesis using k l m a by blast
qed

end
